theory Spec2Isabelle
  imports Main "HOL-Library.AList"
begin

section \<open>Python values\<close>

text \<open>
  The values that flow through \<^verbatim>\<open>server.py\<close>: what \<^verbatim>\<open>resp.json()\<close> can
  produce (JSON without fractional numbers), the text of a response and the message
  strings the operations return. Python's \<^verbatim>\<open>None\<close> and JSON's \<^verbatim>\<open>null\<close> are the
  same value. A \<^verbatim>\<open>dict\<close> is an association list in insertion order. A \<^verbatim>\<open>str\<close> is
  a list of characters with code points below 256.
\<close>

datatype pyval =
    PNone
  | PBool bool
  | PInt int
  | PStr string
  | PList "pyval list"
  | PDict "(string \<times> pyval) list"

datatype py_exception =
    ValueError string
  | TypeError string
  | TransportError string
  | HTTPStatusError nat
  | JSONDecodeError

text \<open>Truth value testing, as \<^verbatim>\<open>not x\<close>, \<^verbatim>\<open>x or y\<close> and \<^verbatim>\<open>if x:\<close> apply it.\<close>

fun truthy :: "pyval \<Rightarrow> bool" where
  "truthy PNone = False"
| "truthy (PBool b) = b"
| "truthy (PInt n) = (n \<noteq> 0)"
| "truthy (PStr s) = (s \<noteq> [])"
| "truthy (PList xs) = (xs \<noteq> [])"
| "truthy (PDict kvs) = (kvs \<noteq> [])"

definition py_or :: "pyval \<Rightarrow> pyval \<Rightarrow> pyval" where
  "py_or a b = (if truthy a then a else b)"

text \<open>\<^verbatim>\<open>type(x).__name__\<close>, which the TypeError of a failed \<^verbatim>\<open>in\<close> reports.\<close>

fun type_name :: "pyval \<Rightarrow> string" where
  "type_name PNone = ''NoneType''"
| "type_name (PBool _) = ''bool''"
| "type_name (PInt _) = ''int''"
| "type_name (PStr _) = ''str''"
| "type_name (PList _) = ''list''"
| "type_name (PDict _) = ''dict''"

fun is_prefix_of :: "string \<Rightarrow> string \<Rightarrow> bool" where
  "is_prefix_of [] ys = True"
| "is_prefix_of (x # xs) [] = False"
| "is_prefix_of (x # xs) (y # ys) = (x = y \<and> is_prefix_of xs ys)"

fun is_substring :: "string \<Rightarrow> string \<Rightarrow> bool" where
  "is_substring xs [] = (xs = [])"
| "is_substring xs (y # ys) = (is_prefix_of xs (y # ys) \<or> is_substring xs ys)"

text \<open>
  \<^verbatim>\<open>key in container\<close> for a \<^verbatim>\<open>str\<close> key: key membership in a dict, element
  membership in a list, substring test in a str, and a TypeError for a value that is
  not a container.
\<close>

fun py_in :: "string \<Rightarrow> pyval \<Rightarrow> py_exception + bool" where
  "py_in k (PDict kvs) = Inr (k \<in> set (map fst kvs))"
| "py_in k (PList xs) = Inr (PStr k \<in> set xs)"
| "py_in k (PStr s) = Inr (is_substring k s)"
| "py_in k v = Inl (TypeError (type_name v))"

section \<open>String helpers\<close>

text \<open>\<^verbatim>\<open>str.isspace\<close> on one character, for code points below 256.\<close>

definition is_space :: "char \<Rightarrow> bool" where
  "is_space c = (let n = (of_char c :: nat) in
     (9 \<le> n \<and> n \<le> 13) \<or> (28 \<le> n \<and> n \<le> 32) \<or> n = 133 \<or> n = 160)"

definition strip :: "string \<Rightarrow> string" where
  "strip s = rev (dropWhile is_space (rev (dropWhile is_space s)))"

text \<open>\<^verbatim>\<open>s.replace("#", "%23")\<close>: every occurrence is replaced.\<close>

definition replace_hash :: "string \<Rightarrow> string" where
  "replace_hash s = concat (map (\<lambda>c. if c = CHR ''#'' then ''%23'' else [c]) s)"

text \<open>\<^verbatim>\<open>",".join(xs)\<close>.\<close>

fun join_comma :: "string list \<Rightarrow> string" where
  "join_comma [] = []"
| "join_comma [x] = x"
| "join_comma (x # y # ys) = x @ '','' @ join_comma (y # ys)"

section \<open>The host fallback requester\<close>

definition ICONIFY_BASE :: string where
  "ICONIFY_BASE = ''https://api.iconify.design''"

definition ICONIFY_BACKUPS :: "string list" where
  "ICONIFY_BACKUPS = [''https://api.simplesvg.com'', ''https://api.unisvg.com'']"

definition USER_AGENT :: string where
  "USER_AGENT = ''icon-mcp/1.0''"

type_synonym params = "(string \<times> pyval) list"
type_synonym headers = "(string \<times> string) list"

text \<open>One \<^verbatim>\<open>client.get(url, params=params, headers=_headers)\<close>.\<close>

record request =
  url :: string
  query :: "params option"
  hdrs :: headers

text \<open>
  What the HTTP library hands back: the status code, the body as text, and what
  \<^verbatim>\<open>resp.json()\<close> gives on that body (the parsed value, or the decoding error).
\<close>

record response =
  status_code :: nat
  text_body :: string
  json_body :: "py_exception + pyval"

text \<open>
  The network, as seen by one call of an operation: each GET either raises (connection
  error, timeout) or returns a response. The three hosts give three different URLs, so
  a function of the request covers every behaviour of the hosts within one call.
  The exceptions are those derived from \<^verbatim>\<open>Exception\<close>, which line 48 catches;
  cancellation and interrupts are not modelled.
\<close>

type_synonym transport = "request \<Rightarrow> py_exception + response"

text \<open>\<^verbatim>\<open>resp.raise_for_status()\<close>: raises unless the status is 2xx.\<close>

definition raise_for_status :: "response \<Rightarrow> py_exception + unit" where
  "raise_for_status resp =
     (if 200 \<le> status_code resp \<and> status_code resp \<le> 299 then Inr ()
      else Inl (HTTPStatusError (status_code resp)))"

text \<open>The body of the \<^verbatim>\<open>try\<close> block: lines 45 to 47.\<close>

definition attempt :: "transport \<Rightarrow> request \<Rightarrow> bool \<Rightarrow> py_exception + pyval" where
  "attempt client req expect_json =
     (case client req of
        Inl exc \<Rightarrow> Inl exc
      | Inr resp \<Rightarrow>
          (case raise_for_status resp of
             Inl exc \<Rightarrow> Inl exc
           | Inr _ \<Rightarrow> if expect_json then json_body resp else Inr (PStr (text_body resp))))"

text \<open>
  The \<^verbatim>\<open>for host in hosts\<close> loop. The state is \<^verbatim>\<open>last_exc\<close> and the list of GETs
  issued so far; the result is the returned value and that list.
\<close>

fun try_hosts ::
  "transport \<Rightarrow> string \<Rightarrow> params option \<Rightarrow> bool \<Rightarrow> headers \<Rightarrow> string list \<Rightarrow>
   py_exception option \<Rightarrow> request list \<Rightarrow> pyval \<times> request list" where
  "try_hosts client path ps expect_json hs [] last_exc issued = (PNone, issued)"
| "try_hosts client path ps expect_json hs (host # hosts) last_exc issued =
     (let req = \<lparr>url = host @ path, query = ps, hdrs = hs\<rparr> in
      case attempt client req expect_json of
        Inr v \<Rightarrow> (v, issued @ [req])
      | Inl exc \<Rightarrow> try_hosts client path ps expect_json hs hosts (Some exc) (issued @ [req]))"

definition build_headers :: "bool \<Rightarrow> headers option \<Rightarrow> headers" where
  "build_headers expect_json headers =
     (let h0 = [(''User-Agent'', USER_AGENT),
                (''Accept'', if expect_json then ''application/json'' else ''image/svg+xml'')]
      in case headers of
           None \<Rightarrow> h0
         | Some extra \<Rightarrow> fold (\<lambda>(k, v). AList.update k v) extra h0)"

definition request_iconify ::
  "transport \<Rightarrow> string \<Rightarrow> params option \<Rightarrow> bool \<Rightarrow> headers option \<Rightarrow> pyval \<times> request list" where
  "request_iconify client path ps expect_json headers =
     try_hosts client path ps expect_json (build_headers expect_json headers)
       (ICONIFY_BASE # ICONIFY_BACKUPS) None []"

section \<open>Parameter normalizers\<close>

definition clamp_limit :: "int option \<Rightarrow> int" where
  "clamp_limit n = (case n of None \<Rightarrow> 64 | Some k \<Rightarrow> max 32 (min 999 k))"

text \<open>\<^verbatim>\<open>icon.split(":", 1)\<close> on a string that contains a colon.\<close>

definition split_first_colon :: "string \<Rightarrow> string \<times> string" where
  "split_first_colon s =
     (takeWhile (\<lambda>c. c \<noteq> CHR '':'') s, tl (dropWhile (\<lambda>c. c \<noteq> CHR '':'') s))"

definition split_icon :: "string \<Rightarrow> py_exception + (string \<times> string)" where
  "split_icon icon =
     (if CHR '':'' \<notin> set icon
      then Inl (ValueError (''Icon must be in 'prefix:name' format, e.g., 'mdi:home'' @ [CHR 0x27]))
      else (let (prefix, name) = split_first_colon icon in
            if prefix = [] \<or> name = []
            then Inl (ValueError (''Invalid icon, expected 'prefix:name'' @ [CHR 0x27]))
            else Inr (prefix, name)))"

section \<open>The operations\<close>

text \<open>
  Every operation gives the value it returns or the exception it raises, and the list
  of GETs it issued.
\<close>

type_synonym op_result = "(py_exception + pyval) \<times> request list"

subsection \<open>search\_icons\<close>

text \<open>Lines 94 to 98: the query text with the style and palette keywords.\<close>

definition search_query_kw :: "string \<Rightarrow> string option \<Rightarrow> bool option \<Rightarrow> string" where
  "search_query_kw query_text style palette =
     (let q0 = strip query_text;
          q1 = (case style of
                  None \<Rightarrow> q0
                | Some s \<Rightarrow> if s = ''fill'' \<or> s = ''stroke'' then q0 @ '' style='' @ s else q0)
      in case palette of
           None \<Rightarrow> q1
         | Some p \<Rightarrow> q1 @ '' palette='' @ (if p then ''true'' else ''false''))"

text \<open>Lines 100 to 110: the query parameters of the search.\<close>

definition search_params ::
  "string \<Rightarrow> int option \<Rightarrow> int \<Rightarrow> string option \<Rightarrow> string list option \<Rightarrow> string option \<Rightarrow>
   string option \<Rightarrow> bool option \<Rightarrow> params" where
  "search_params query_text limit start prefix prefixes category style palette =
     (let p0 = [(''query'', PStr (search_query_kw query_text style palette)),
                (''limit'', PInt (clamp_limit limit)),
                (''start'', PInt (max 0 start))];
          p1 = (case prefix of
                  None \<Rightarrow> p0
                | Some x \<Rightarrow> if x \<noteq> [] then AList.update ''prefix'' (PStr x) p0 else p0);
          p2 = (case prefixes of
                  None \<Rightarrow> p1
                | Some xs \<Rightarrow>
                    if xs \<noteq> [] then AList.update ''prefixes'' (PStr (join_comma xs)) p1 else p1)
      in case category of
           None \<Rightarrow> p2
         | Some c \<Rightarrow> if c \<noteq> [] then AList.update ''category'' (PStr c) p2 else p2)"

definition search_failure :: string where
  "search_failure = ''Unable to fetch search results or no results found.''"

text \<open>
  Lines 113 to 115. The \<^verbatim>\<open>or\<close> evaluates \<^verbatim>\<open>"icons" not in data\<close> only when
  \<^verbatim>\<open>data\<close> is truthy.
\<close>

definition search_outcome :: "pyval \<Rightarrow> py_exception + pyval" where
  "search_outcome data =
     (if \<not> truthy data then Inr (PStr search_failure)
      else (case py_in ''icons'' data of
              Inl exc \<Rightarrow> Inl exc
            | Inr found \<Rightarrow> if \<not> found then Inr (PStr search_failure) else Inr data))"

definition search_icons ::
  "transport \<Rightarrow> string \<Rightarrow> int option \<Rightarrow> int \<Rightarrow> string option \<Rightarrow> string list option \<Rightarrow>
   string option \<Rightarrow> string option \<Rightarrow> bool option \<Rightarrow> op_result" where
  "search_icons client query_text limit start prefix prefixes category style palette =
     (let ps = search_params query_text limit start prefix prefixes category style palette;
          (data, issued) = request_iconify client ''/search'' (Some ps) True None
      in (search_outcome data, issued))"

subsection \<open>get\_svg\<close>

text \<open>Lines 134 to 148.\<close>

definition svg_params ::
  "string option \<Rightarrow> string option \<Rightarrow> string option \<Rightarrow> string option \<Rightarrow> string option \<Rightarrow>
   bool \<Rightarrow> bool \<Rightarrow> params" where
  "svg_params color width height rotation flip box download =
     (let p1 = (case color of
                  None \<Rightarrow> []
                | Some c \<Rightarrow> if c \<noteq> [] then AList.update ''color'' (PStr (replace_hash c)) [] else []);
          p2 = (case width of
                  None \<Rightarrow> p1
                | Some w \<Rightarrow> if w \<noteq> [] then AList.update ''width'' (PStr w) p1 else p1);
          p3 = (case height of
                  None \<Rightarrow> p2
                | Some h \<Rightarrow> if h \<noteq> [] then AList.update ''height'' (PStr h) p2 else p2);
          p4 = (case rotation of
                  None \<Rightarrow> p3
                | Some r \<Rightarrow> if r \<noteq> [] then AList.update ''rotate'' (PStr r) p3 else p3);
          p5 = (case flip of
                  None \<Rightarrow> p4
                | Some f \<Rightarrow> if f \<noteq> [] then AList.update ''flip'' (PStr f) p4 else p4);
          p6 = (if box then AList.update ''box'' (PInt 1) p5 else p5)
      in if download then AList.update ''download'' (PInt 1) p6 else p6)"

definition svg_failure :: string where
  "svg_failure = ''Unable to fetch SVG.''"

definition get_svg ::
  "transport \<Rightarrow> string \<Rightarrow> string option \<Rightarrow> string option \<Rightarrow> string option \<Rightarrow> string option \<Rightarrow>
   string option \<Rightarrow> bool \<Rightarrow> bool \<Rightarrow> op_result" where
  "get_svg client icon color width height rotation flip box download =
     (case split_icon icon of
        Inl (ValueError msg) \<Rightarrow> (Inr (PStr msg), [])
      | Inl exc \<Rightarrow> (Inl exc, [])
      | Inr (prefix, name) \<Rightarrow>
          (let ps = svg_params color width height rotation flip box download;
               (svg, issued) =
                 request_iconify client (''/'' @ prefix @ ''/'' @ name @ ''.svg'') (Some ps) False None
           in (Inr (py_or svg (PStr svg_failure)), issued)))"

subsection \<open>get\_icon\_data\<close>

definition icon_data_failure :: string where
  "icon_data_failure = ''Unable to fetch icon data.''"

definition get_icon_data :: "transport \<Rightarrow> string \<Rightarrow> op_result" where
  "get_icon_data client icon =
     (case split_icon icon of
        Inl (ValueError msg) \<Rightarrow> (Inr (PStr msg), [])
      | Inl exc \<Rightarrow> (Inl exc, [])
      | Inr (prefix, name) \<Rightarrow>
          (let ps = [(''icons'', PStr name)];
               (data, issued) =
                 request_iconify client (''/'' @ prefix @ ''.json'') (Some ps) True None
           in (Inr (py_or data (PStr icon_data_failure)), issued)))"

subsection \<open>list\_collections\<close>

definition collections_params :: "string option \<Rightarrow> string list option \<Rightarrow> params" where
  "collections_params prefix prefixes =
     (let p1 = (case prefix of
                  None \<Rightarrow> []
                | Some x \<Rightarrow> if x \<noteq> [] then AList.update ''prefix'' (PStr x) [] else [])
      in case prefixes of
           None \<Rightarrow> p1
         | Some xs \<Rightarrow>
             if xs \<noteq> [] then AList.update ''prefixes'' (PStr (join_comma xs)) p1 else p1)"

definition collections_failure :: string where
  "collections_failure = ''Unable to fetch collections.''"

definition list_collections :: "transport \<Rightarrow> string option \<Rightarrow> string list option \<Rightarrow> op_result" where
  "list_collections client prefix prefixes =
     (let ps = collections_params prefix prefixes;
          (data, issued) = request_iconify client ''/collections'' (Some ps) True None
      in (Inr (py_or data (PStr collections_failure)), issued))"

subsection \<open>list\_icons\_in\_collection\<close>

text \<open>Lines 193 to 197.\<close>

definition collection_params :: "string \<Rightarrow> bool \<Rightarrow> bool \<Rightarrow> params" where
  "collection_params prefix include_info include_chars =
     (let p0 = [(''prefix'', PStr prefix)];
          p1 = (if include_info then AList.update ''info'' (PStr ''1'') p0 else p0)
      in if include_chars then AList.update ''chars'' (PStr ''1'') p1 else p1)"

definition collection_failure :: "string \<Rightarrow> string" where
  "collection_failure prefix =
     ''Unable to fetch icons for collection '' @ [CHR 0x27] @ prefix @ [CHR 0x27] @ ''.''"

definition list_icons_in_collection :: "transport \<Rightarrow> string \<Rightarrow> bool \<Rightarrow> bool \<Rightarrow> op_result" where
  "list_icons_in_collection client prefix include_info include_chars =
     (let ps = collection_params prefix include_info include_chars;
          (data, issued) = request_iconify client ''/collection'' (Some ps) True None
      in (Inr (py_or data (PStr (collection_failure prefix))), issued))"

section \<open>Example networks\<close>

text \<open>Every host is down.\<close>

definition all_down :: transport where
  "all_down req = Inl (TransportError ''connection refused'')"

text \<open>Every host answers 200 with the given JSON value and text.\<close>

definition serve :: "pyval \<Rightarrow> string \<Rightarrow> transport" where
  "serve v txt req = Inr \<lparr>status_code = 200, text_body = txt, json_body = Inr v\<rparr>"

text \<open>Each of the three hosts has an outcome of its own, in the order of the list.\<close>

definition three_hosts ::
  "(py_exception + response) \<Rightarrow> (py_exception + response) \<Rightarrow> (py_exception + response) \<Rightarrow>
   transport" where
  "three_hosts primary backup1 backup2 req =
     (if is_prefix_of ''https://api.iconify.design'' (url req) then primary
      else if is_prefix_of ''https://api.simplesvg.com'' (url req) then backup1
      else backup2)"

section \<open>Outcomes of a call, for stating properties\<close>

text \<open>The GET that line 45 issues to one host.\<close>

definition host_request :: "string \<Rightarrow> params option \<Rightarrow> bool \<Rightarrow> headers option \<Rightarrow> string \<Rightarrow> request" where
  "host_request path ps expect_json headers host =
     \<lparr>url = host @ path, query = ps, hdrs = build_headers expect_json headers\<rparr>"

text \<open>
  What the transport does that makes one host fail: the GET raises (a connection error,
  a timeout), or the answer has a status outside 200 to 299, or JSON is expected and the
  body does not parse.
\<close>

definition host_fails :: "transport \<Rightarrow> request \<Rightarrow> bool \<Rightarrow> bool" where
  "host_fails client req expect_json =
     (case client req of
        Inl exc \<Rightarrow> True
      | Inr resp \<Rightarrow>
          status_code resp < 200 \<or> 299 < status_code resp \<or>
          (expect_json \<and> isl (json_body resp)))"

text \<open>
  Host number \<open>k\<close> of the list is the first whose attempt succeeds, and it yields \<open>v\<close>;
  every host of the list fails.
\<close>

definition first_success ::
  "transport \<Rightarrow> string \<Rightarrow> params option \<Rightarrow> bool \<Rightarrow> headers option \<Rightarrow> nat \<Rightarrow> pyval \<Rightarrow> bool" where
  "first_success client path ps expect_json headers k v =
     (k < length (ICONIFY_BASE # ICONIFY_BACKUPS) \<and>
      list_all (\<lambda>h. isl (attempt client (host_request path ps expect_json headers h) expect_json))
        (take k (ICONIFY_BASE # ICONIFY_BACKUPS)) \<and>
      attempt client
        (host_request path ps expect_json headers ((ICONIFY_BASE # ICONIFY_BACKUPS) ! k))
        expect_json = Inr v)"

definition all_fail :: "transport \<Rightarrow> string \<Rightarrow> params option \<Rightarrow> bool \<Rightarrow> headers option \<Rightarrow> bool" where
  "all_fail client path ps expect_json headers =
     list_all (\<lambda>h. isl (attempt client (host_request path ps expect_json headers h) expect_json))
       (ICONIFY_BASE # ICONIFY_BACKUPS)"

section \<open>The icon-reference splitter\<close>

lemma split_first_colon_append:
  "CHR '':'' \<notin> set p \<Longrightarrow> split_first_colon (p @ CHR '':'' # n) = (p, n)"
  by (induction p) (auto simp: split_first_colon_def)

lemma split_first_colon_decomp:
  assumes "CHR '':'' \<in> set s"
  shows "s = fst (split_first_colon s) @ CHR '':'' # snd (split_first_colon s)"
    and "CHR '':'' \<notin> set (fst (split_first_colon s))"
proof -
  let ?P = "\<lambda>c. c \<noteq> CHR '':''"
  from assms have ne: "dropWhile ?P s \<noteq> []"
    by (simp add: dropWhile_eq_Nil_conv) 
  then have hd: "hd (dropWhile ?P s) = CHR '':''"
    using hd_dropWhile [of ?P s] by simp
  from ne hd have "dropWhile ?P s = CHR '':'' # tl (dropWhile ?P s)"
    by (cases "dropWhile ?P s") simp_all
  then have "takeWhile ?P s @ CHR '':'' # tl (dropWhile ?P s) = s"
    using takeWhile_dropWhile_id [of ?P s] by simp
  then show "s = fst (split_first_colon s) @ CHR '':'' # snd (split_first_colon s)"
    by (simp add: split_first_colon_def)
  show "CHR '':'' \<notin> set (fst (split_first_colon s))"
    using set_takeWhileD [of "CHR '':''" ?P s] by (auto simp: split_first_colon_def)
qed

lemma split_icon_Inr_iff:
  "split_icon s = Inr (p, n) \<longleftrightarrow>
     s = p @ CHR '':'' # n \<and> CHR '':'' \<notin> set p \<and> p \<noteq> [] \<and> n \<noteq> []"
proof
  assume r: "split_icon s = Inr (p, n)"
  then have c: "CHR '':'' \<in> set s"
    by (auto simp: split_icon_def split: if_splits)
  from r c have sp: "split_first_colon s = (p, n)" and ne: "p \<noteq> []" "n \<noteq> []"
    by (auto simp: split_icon_def split: if_splits prod.splits)
  from split_first_colon_decomp [OF c] sp ne
  show "s = p @ CHR '':'' # n \<and> CHR '':'' \<notin> set p \<and> p \<noteq> [] \<and> n \<noteq> []"
    by simp
next
  assume a: "s = p @ CHR '':'' # n \<and> CHR '':'' \<notin> set p \<and> p \<noteq> [] \<and> n \<noteq> []"
  then have "split_first_colon s = (p, n)"
    by (simp add: split_first_colon_append)
  with a show "split_icon s = Inr (p, n)"
    by (simp add: split_icon_def)
qed

lemma split_icon_Inl:
  "split_icon s = Inl e \<Longrightarrow> \<exists>m. e = ValueError m"
  by (auto simp: split_icon_def Let_def split: if_splits prod.splits)

text \<open>
  Claim C4. The icon-reference splitter fails, with a ValueError (the spec's InvalidIcon),
  exactly when the string has no colon or when the part before the first colon or the
  part after it is empty. Otherwise it returns the pair of the two parts, and
  \<^verbatim>\<open>"mdi:home"\<close> gives \<^verbatim>\<open>("mdi", "home")\<close>. The first colon of \<open>s\<close> is the one in
  the decomposition \<open>s = p @ CHR '':'' # n\<close> where \<open>p\<close> has no colon.
\<close>

theorem split_icon_fails_exactly:
  "((\<exists>m. split_icon s = Inl (ValueError m)) \<longleftrightarrow>
      (CHR '':'' \<notin> set s \<or>
       (\<exists>p n. s = p @ CHR '':'' # n \<and> CHR '':'' \<notin> set p \<and> (p = [] \<or> n = [])))) \<and>
   ((\<forall>m. split_icon s \<noteq> Inl (ValueError m)) \<longrightarrow>
      (\<exists>p n. split_icon s = Inr (p, n) \<and> s = p @ CHR '':'' # n \<and> CHR '':'' \<notin> set p)) \<and>
   split_icon ''mdi:home'' = Inr (''mdi'', ''home'')"
proof (intro conjI)
  show "(\<exists>m. split_icon s = Inl (ValueError m)) \<longleftrightarrow>
      (CHR '':'' \<notin> set s \<or>
       (\<exists>p n. s = p @ CHR '':'' # n \<and> CHR '':'' \<notin> set p \<and> (p = [] \<or> n = [])))"
  proof (cases "CHR '':'' \<in> set s")
    case False
    then show ?thesis by (simp add: split_icon_def)
  next
    case True
    obtain p n where pn: "split_first_colon s = (p, n)" by (cases "split_first_colon s")
    from split_first_colon_decomp [OF True] pn
    have d: "s = p @ CHR '':'' # n" "CHR '':'' \<notin> set p" by simp_all
    have uniq: "p' = p \<and> n' = n" if "s = p' @ CHR '':'' # n'" "CHR '':'' \<notin> set p'" for p' n'
      using split_first_colon_append [of p' n'] that pn by simp
    show ?thesis
    proof
      assume "\<exists>m. split_icon s = Inl (ValueError m)"
      with True pn have "p = [] \<or> n = []"
        by (auto simp: split_icon_def split: if_splits)
      with d show "CHR '':'' \<notin> set s \<or>
       (\<exists>p n. s = p @ CHR '':'' # n \<and> CHR '':'' \<notin> set p \<and> (p = [] \<or> n = []))"
        by blast
    next
      assume "CHR '':'' \<notin> set s \<or>
       (\<exists>p n. s = p @ CHR '':'' # n \<and> CHR '':'' \<notin> set p \<and> (p = [] \<or> n = []))"
      with True uniq have "p = [] \<or> n = []" by blast
      with True pn show "\<exists>m. split_icon s = Inl (ValueError m)"
        by (auto simp: split_icon_def)
    qed
  qed
next
  show "(\<forall>m. split_icon s \<noteq> Inl (ValueError m)) \<longrightarrow>
      (\<exists>p n. split_icon s = Inr (p, n) \<and> s = p @ CHR '':'' # n \<and> CHR '':'' \<notin> set p)"
  proof
    assume nf: "\<forall>m. split_icon s \<noteq> Inl (ValueError m)"
    then obtain p n where "split_icon s = Inr (p, n)"
      using split_icon_Inl [of s] by (cases "split_icon s") auto
    then show "\<exists>p n. split_icon s = Inr (p, n) \<and> s = p @ CHR '':'' # n \<and> CHR '':'' \<notin> set p"
      using split_icon_Inr_iff [of s p n] by blast
  qed
next
  show "split_icon ''mdi:home'' = Inr (''mdi'', ''home'')"
    by (simp add: split_icon_def split_first_colon_def)
qed

theorem split_icon_fails_exactly_witness:
  "(\<exists>m. split_icon ''mdihome'' = Inl (ValueError m)) \<and>
   (\<exists>m. split_icon '':home'' = Inl (ValueError m)) \<and>
   (\<exists>m. split_icon ''mdi:'' = Inl (ValueError m)) \<and>
   (\<exists>p n. split_icon ''mdi:home'' = Inr (p, n))"
proof (intro conjI)
  show "\<exists>m. split_icon ''mdihome'' = Inl (ValueError m)"
    using split_icon_fails_exactly [of "''mdihome''"] by simp
  have "'':home'' = [] @ CHR '':'' # ''home'' \<and> CHR '':'' \<notin> set [] \<and> ([] = [] \<or> ''home'' = [])"
    by simp
  then show "\<exists>m. split_icon '':home'' = Inl (ValueError m)"
    using split_icon_fails_exactly [of "'':home''"] by blast
  have "''mdi:'' = ''mdi'' @ CHR '':'' # [] \<and> CHR '':'' \<notin> set ''mdi'' \<and> (''mdi'' = [] \<or> [] = [])"
    by simp
  then show "\<exists>m. split_icon ''mdi:'' = Inl (ValueError m)"
    using split_icon_fails_exactly [of "''mdi:''"] by blast
  have "\<forall>m. split_icon ''mdi:home'' \<noteq> Inl (ValueError m)"
    by (simp add: split_icon_def split_first_colon_def)
  then show "\<exists>p n. split_icon ''mdi:home'' = Inr (p, n)"
    using split_icon_fails_exactly [of "''mdi:home''"] by blast
qed

text \<open>
  Claim C10. The splitter splits at the first colon only: when the part before it and
  the part after it are not empty it succeeds, and the name keeps every further colon,
  so that \<^verbatim>\<open>"a:b:c"\<close> gives \<^verbatim>\<open>("a", "b:c")\<close>.
\<close>

theorem split_icon_first_colon:
  "CHR '':'' \<notin> set p \<Longrightarrow> p \<noteq> [] \<Longrightarrow> n \<noteq> [] \<Longrightarrow> split_icon (p @ CHR '':'' # n) = Inr (p, n)"
  by (simp add: split_icon_def split_first_colon_append)

theorem split_icon_first_colon_witness:
  "split_icon ''a:b:c'' = Inr (''a'', ''b:c'')"
  using split_icon_first_colon [of "''a''" "''b:c''"] by simp

section \<open>The limit normalizer\<close>

text \<open>
  Claim C3. The limit normalizer returns 64 for an unset limit, and for every integer
  \<open>n\<close> a value between 32 and 999: \<open>n\<close> itself inside the range, 32 below it and 999
  above it.
\<close>

theorem clamp_limit_range:
  "clamp_limit None = 64 \<and>
   32 \<le> clamp_limit (Some n) \<and> clamp_limit (Some n) \<le> 999 \<and>
   clamp_limit (Some n) = (if n < 32 then 32 else if 999 < n then 999 else n) \<and>
   clamp_limit (Some 10) = 32 \<and> clamp_limit (Some 5000) = 999 \<and> clamp_limit (Some 64) = 64"
  by (simp add: clamp_limit_def)


section \<open>Host fallback\<close>

lemma try_hosts_all_fail:
  "\<forall>h \<in> set hosts. \<exists>e. attempt client \<lparr>url = h @ path, query = ps, hdrs = hs\<rparr> ej = Inl e \<Longrightarrow>
   try_hosts client path ps ej hs hosts last_exc issued =
     (PNone, issued @ map (\<lambda>h. \<lparr>url = h @ path, query = ps, hdrs = hs\<rparr>) hosts)"
proof (induction hosts arbitrary: last_exc issued)
  case Nil
  then show ?case by simp
next
  case (Cons h hosts)
  from Cons.prems obtain e where e: "attempt client \<lparr>url = h @ path, query = ps, hdrs = hs\<rparr> ej = Inl e"
    by auto
  from Cons.prems have rest:
    "\<forall>h \<in> set hosts. \<exists>e. attempt client \<lparr>url = h @ path, query = ps, hdrs = hs\<rparr> ej = Inl e"
    by simp
  show ?case
    using e Cons.IH [OF rest] by simp
qed

lemma try_hosts_first_success:
  "k < length hosts \<Longrightarrow>
   \<forall>j < k. \<exists>e. attempt client \<lparr>url = hosts ! j @ path, query = ps, hdrs = hs\<rparr> ej = Inl e \<Longrightarrow>
   attempt client \<lparr>url = hosts ! k @ path, query = ps, hdrs = hs\<rparr> ej = Inr v \<Longrightarrow>
   try_hosts client path ps ej hs hosts last_exc issued =
     (v, issued @ map (\<lambda>h. \<lparr>url = h @ path, query = ps, hdrs = hs\<rparr>) (take (Suc k) hosts))"
proof (induction hosts arbitrary: k last_exc issued)
  case Nil
  then show ?case by simp
next
  case (Cons h hosts)
  show ?case
  proof (cases k)
    case 0
    with Cons.prems show ?thesis by simp
  next
    case (Suc k')
    from Cons.prems(2) Suc obtain e where
      e: "attempt client \<lparr>url = h @ path, query = ps, hdrs = hs\<rparr> ej = Inl e"
      by fastforce
    from Cons.prems(1) Suc have k': "k' < length hosts" by simp
    from Cons.prems(2) Suc have before:
      "\<forall>j < k'. \<exists>e. attempt client \<lparr>url = hosts ! j @ path, query = ps, hdrs = hs\<rparr> ej = Inl e"
      by fastforce
    from Cons.prems(3) Suc have at:
      "attempt client \<lparr>url = hosts ! k' @ path, query = ps, hdrs = hs\<rparr> ej = Inr v"
      by simp
    show ?thesis
      using e Suc Cons.IH [OF k' before at] by simp
  qed
qed

lemma attempt_Inr_iff:
  "attempt client req ej = Inr v \<longleftrightarrow>
     (\<exists>resp. client req = Inr resp \<and> 200 \<le> status_code resp \<and> status_code resp \<le> 299 \<and>
        (if ej then json_body resp = Inr v else v = PStr (text_body resp)))"
  by (auto simp: attempt_def raise_for_status_def split: sum.splits)

lemma request_iconify_first_success:
  assumes "first_success client path ps ej headers k v"
  shows "request_iconify client path ps ej headers =
           (v, map (host_request path ps ej headers) (take (Suc k) (ICONIFY_BASE # ICONIFY_BACKUPS)))"
proof -
  let ?hosts = "ICONIFY_BASE # ICONIFY_BACKUPS"
  let ?hs = "build_headers ej headers"
  from assms have k: "k < length ?hosts"
    and pre: "list_all (\<lambda>h. isl (attempt client (host_request path ps ej headers h) ej)) (take k ?hosts)"
    and ok: "attempt client \<lparr>url = ?hosts ! k @ path, query = ps, hdrs = ?hs\<rparr> ej = Inr v"
    by (simp_all add: first_success_def host_request_def)
  have before: "\<forall>j < k. \<exists>e. attempt client \<lparr>url = ?hosts ! j @ path, query = ps, hdrs = ?hs\<rparr> ej = Inl e"
  proof (intro allI impI)
    fix j assume j: "j < k"
    with k have "j < length (take k ?hosts)" by simp
    with pre have "isl (attempt client (host_request path ps ej headers (take k ?hosts ! j)) ej)"
      unfolding list_all_length by blast
    with j show "\<exists>e. attempt client \<lparr>url = ?hosts ! j @ path, query = ps, hdrs = ?hs\<rparr> ej = Inl e"
      by (simp add: host_request_def isl_def)
  qed
  have "(\<lambda>h. \<lparr>url = h @ path, query = ps, hdrs = ?hs\<rparr>) = host_request path ps ej headers"
    by (rule ext) (simp add: host_request_def)
  then show ?thesis
    unfolding request_iconify_def
    using try_hosts_first_success [OF k before ok, of None "[]"] by simp
qed

lemma request_iconify_all_fail:
  assumes "all_fail client path ps ej headers"
  shows "request_iconify client path ps ej headers =
           (PNone, map (host_request path ps ej headers) (ICONIFY_BASE # ICONIFY_BACKUPS))"
proof -
  let ?hosts = "ICONIFY_BASE # ICONIFY_BACKUPS"
  let ?hs = "build_headers ej headers"
  from assms have
    "\<forall>h \<in> set ?hosts. \<exists>e. attempt client \<lparr>url = h @ path, query = ps, hdrs = ?hs\<rparr> ej = Inl e"
    unfolding all_fail_def list_all_iff by (simp add: host_request_def isl_def)
  moreover have "(\<lambda>h. \<lparr>url = h @ path, query = ps, hdrs = ?hs\<rparr>) = host_request path ps ej headers"
    by (rule ext) (simp add: host_request_def)
  ultimately show ?thesis
    unfolding request_iconify_def
    using try_hosts_all_fail [of ?hosts client path ps ?hs ej None "[]"] by simp
qed

lemma all_down_all_fail: "all_fail all_down path ps ej headers"
  by (simp add: all_fail_def all_down_def attempt_def list_all_iff)

lemma serve_first_success:
  "first_success (serve v txt) path ps ej headers 0 (if ej then v else PStr txt)"
  by (simp add: first_success_def serve_def attempt_def raise_for_status_def)

lemma try_hosts_issued:
  "\<exists>rest. snd (try_hosts client path ps ej hs hosts last_exc issued) = issued @ rest \<and>
          (hosts \<noteq> [] \<longrightarrow> rest \<noteq> []) \<and>
          set rest \<subseteq> (\<lambda>h. \<lparr>url = h @ path, query = ps, hdrs = hs\<rparr>) ` set hosts"
proof (induction hosts arbitrary: last_exc issued)
  case Nil
  then show ?case by simp
next
  case (Cons h hosts)
  let ?r = "\<lparr>url = h @ path, query = ps, hdrs = hs\<rparr>"
  show ?case
  proof (cases "attempt client ?r ej")
    case (Inr v)
    then show ?thesis by simp
  next
    case (Inl e)
    from Cons.IH [of "Some e" "issued @ [?r]"] obtain rest where
      rest: "snd (try_hosts client path ps ej hs hosts (Some e) (issued @ [?r])) = (issued @ [?r]) @ rest"
        "set rest \<subseteq> (\<lambda>h. \<lparr>url = h @ path, query = ps, hdrs = hs\<rparr>) ` set hosts"
      by blast
    have "snd (try_hosts client path ps ej hs (h # hosts) last_exc issued) = issued @ (?r # rest)"
      using Inl rest(1) by simp
    moreover have "set (?r # rest) \<subseteq> (\<lambda>h. \<lparr>url = h @ path, query = ps, hdrs = hs\<rparr>) ` set (h # hosts)"
      using rest(2) by auto
    ultimately show ?thesis by blast
  qed
qed

lemma request_iconify_issued:
  "snd (request_iconify client path ps ej headers) \<noteq> [] \<and>
   (\<forall>r \<in> set (snd (request_iconify client path ps ej headers)).
      query r = ps \<and> hdrs r = build_headers ej headers \<and>
      (\<exists>h \<in> set (ICONIFY_BASE # ICONIFY_BACKUPS). url r = h @ path))"
proof -
  from try_hosts_issued [of client path ps ej "build_headers ej headers"
      "ICONIFY_BASE # ICONIFY_BACKUPS" None "[]"]
  obtain rest where
    rest: "snd (request_iconify client path ps ej headers) = rest" "rest \<noteq> []"
      "set rest \<subseteq> (\<lambda>h. \<lparr>url = h @ path, query = ps, hdrs = build_headers ej headers\<rparr>) `
                   set (ICONIFY_BASE # ICONIFY_BACKUPS)"
    unfolding request_iconify_def by auto
  from rest(3) have "\<forall>r \<in> set rest.
      query r = ps \<and> hdrs r = build_headers ej headers \<and>
      (\<exists>h \<in> set (ICONIFY_BASE # ICONIFY_BACKUPS). url r = h @ path)"
    by auto
  with rest(1,2) show ?thesis by simp
qed

lemma host_fails_iff_attempt:
  "host_fails client req ej \<longleftrightarrow> (\<exists>e. attempt client req ej = Inl e)"
  by (auto simp: host_fails_def attempt_def raise_for_status_def isl_def split: sum.splits)

lemma host_fails_or_answers:
  "host_fails client req ej \<or>
   (\<exists>resp v. client req = Inr resp \<and> 200 \<le> status_code resp \<and> status_code resp \<le> 299 \<and>
      (if ej then json_body resp = Inr v else v = PStr (text_body resp)))"
proof (cases "client req")
  case (Inl e)
  then show ?thesis by (simp add: host_fails_def)
next
  case (Inr resp)
  show ?thesis
  proof (cases "json_body resp")
    case (Inl e)
    with Inr show ?thesis by (auto simp: host_fails_def)
  next
    case js: (Inr w)
    with Inr show ?thesis by (auto simp: host_fails_def)
  qed
qed

text \<open>
  Claim C1. The requester tries the primary host, then each backup in the listed order.
  A host fails when its GET raises, when it answers with a status that is not 2xx, or
  when JSON is expected and its body does not parse; any other answer succeeds. When
  host number \<open>k\<close> is the first that does not fail, the result is that host's parsed
  JSON body, or its text when JSON is not expected, and exactly the hosts up to \<open>k\<close>
  were asked, in order. When every host fails, the result is \<^verbatim>\<open>None\<close> and each host
  was asked once, in order. The requester has no other outcome: its result is a value,
  never an exception.
\<close>

theorem request_iconify_fallback:
  "(k < length (ICONIFY_BASE # ICONIFY_BACKUPS) \<and>
    (\<forall>j < k. host_fails client
        (host_request path ps ej headers ((ICONIFY_BASE # ICONIFY_BACKUPS) ! j)) ej) \<and>
    client (host_request path ps ej headers ((ICONIFY_BASE # ICONIFY_BACKUPS) ! k)) = Inr resp \<and>
    200 \<le> status_code resp \<and> status_code resp \<le> 299 \<and>
    (if ej then json_body resp = Inr v else v = PStr (text_body resp))
    \<longrightarrow>
    request_iconify client path ps ej headers =
      (v, map (host_request path ps ej headers) (take (Suc k) (ICONIFY_BASE # ICONIFY_BACKUPS)))) \<and>
   ((\<forall>h \<in> set (ICONIFY_BASE # ICONIFY_BACKUPS).
        host_fails client (host_request path ps ej headers h) ej)
    \<longrightarrow>
    request_iconify client path ps ej headers =
      (PNone, map (host_request path ps ej headers) (ICONIFY_BASE # ICONIFY_BACKUPS))) \<and>
   (host_fails client req ej \<or>
    (\<exists>resp v. client req = Inr resp \<and> 200 \<le> status_code resp \<and> status_code resp \<le> 299 \<and>
       (if ej then json_body resp = Inr v else v = PStr (text_body resp)))) \<and>
   ICONIFY_BASE # ICONIFY_BACKUPS =
     [''https://api.iconify.design'', ''https://api.simplesvg.com'', ''https://api.unisvg.com'']"
proof (intro conjI impI)
  let ?hosts = "ICONIFY_BASE # ICONIFY_BACKUPS"
  assume a: "k < length ?hosts \<and>
    (\<forall>j < k. host_fails client (host_request path ps ej headers (?hosts ! j)) ej) \<and>
    client (host_request path ps ej headers (?hosts ! k)) = Inr resp \<and>
    200 \<le> status_code resp \<and> status_code resp \<le> 299 \<and>
    (if ej then json_body resp = Inr v else v = PStr (text_body resp))"
  then have k: "k < length ?hosts" by blast
  from a have ok: "attempt client (host_request path ps ej headers (?hosts ! k)) ej = Inr v"
    unfolding attempt_Inr_iff by blast
  have pre: "list_all (\<lambda>h. isl (attempt client (host_request path ps ej headers h) ej)) (take k ?hosts)"
    unfolding list_all_length
  proof (intro allI impI)
    fix j assume "j < length (take k ?hosts)"
    then have j: "j < k" by simp
    with a have "host_fails client (host_request path ps ej headers (?hosts ! j)) ej" by blast
    with j show "isl (attempt client (host_request path ps ej headers (take k ?hosts ! j)) ej)"
      by (simp add: host_fails_iff_attempt isl_def)
  qed
  from k pre ok have "first_success client path ps ej headers k v"
    unfolding first_success_def by blast
  then show "request_iconify client path ps ej headers =
      (v, map (host_request path ps ej headers) (take (Suc k) ?hosts))"
    by (rule request_iconify_first_success)
next
  let ?hosts = "ICONIFY_BASE # ICONIFY_BACKUPS"
  assume "\<forall>h \<in> set ?hosts. host_fails client (host_request path ps ej headers h) ej"
  then have "all_fail client path ps ej headers"
    unfolding all_fail_def list_all_iff by (simp add: host_fails_iff_attempt isl_def)
  then show "request_iconify client path ps ej headers =
      (PNone, map (host_request path ps ej headers) ?hosts)"
    by (rule request_iconify_all_fail)
next
  show "host_fails client req ej \<or>
    (\<exists>resp v. client req = Inr resp \<and> 200 \<le> status_code resp \<and> status_code resp \<le> 299 \<and>
       (if ej then json_body resp = Inr v else v = PStr (text_body resp)))"
    by (rule host_fails_or_answers)
next
  show "ICONIFY_BASE # ICONIFY_BACKUPS =
     [''https://api.iconify.design'', ''https://api.simplesvg.com'', ''https://api.unisvg.com'']"
    by (simp add: ICONIFY_BASE_def ICONIFY_BACKUPS_def)
qed


theorem request_iconify_fallback_witness:
  "request_iconify
     (three_hosts
        (Inr \<lparr>status_code = 500, text_body = ''down'', json_body = Inr (PStr ''down'')\<rparr>)
        (Inr \<lparr>status_code = 200, text_body = ''<html>'', json_body = Inl JSONDecodeError\<rparr>)
        (Inr \<lparr>status_code = 200, text_body = ''7'', json_body = Inr (PInt 7)\<rparr>))
     ''/x'' None True None =
     (PInt 7,
      [\<lparr>url = ''https://api.iconify.design/x'', query = None,
        hdrs = [(''User-Agent'', ''icon-mcp/1.0''), (''Accept'', ''application/json'')]\<rparr>,
       \<lparr>url = ''https://api.simplesvg.com/x'', query = None,
        hdrs = [(''User-Agent'', ''icon-mcp/1.0''), (''Accept'', ''application/json'')]\<rparr>,
       \<lparr>url = ''https://api.unisvg.com/x'', query = None,
        hdrs = [(''User-Agent'', ''icon-mcp/1.0''), (''Accept'', ''application/json'')]\<rparr>]) \<and>
   request_iconify
     (three_hosts
        (Inl (TransportError ''timeout''))
        (Inr \<lparr>status_code = 200, text_body = ''<svg/>'', json_body = Inl JSONDecodeError\<rparr>)
        (Inl (TransportError ''timeout'')))
     ''/x'' None False None =
     (PStr ''<svg/>'',
      [\<lparr>url = ''https://api.iconify.design/x'', query = None,
        hdrs = [(''User-Agent'', ''icon-mcp/1.0''), (''Accept'', ''image/svg+xml'')]\<rparr>,
       \<lparr>url = ''https://api.simplesvg.com/x'', query = None,
        hdrs = [(''User-Agent'', ''icon-mcp/1.0''), (''Accept'', ''image/svg+xml'')]\<rparr>]) \<and>
   request_iconify
     (three_hosts
        (Inr \<lparr>status_code = 500, text_body = ''down'', json_body = Inr (PStr ''down'')\<rparr>)
        (Inr \<lparr>status_code = 404, text_body = ''404'', json_body = Inr (PInt 404)\<rparr>)
        (Inl (TransportError ''timeout'')))
     ''/x'' None True None =
     (PNone,
      [\<lparr>url = ''https://api.iconify.design/x'', query = None,
        hdrs = [(''User-Agent'', ''icon-mcp/1.0''), (''Accept'', ''application/json'')]\<rparr>,
       \<lparr>url = ''https://api.simplesvg.com/x'', query = None,
        hdrs = [(''User-Agent'', ''icon-mcp/1.0''), (''Accept'', ''application/json'')]\<rparr>,
       \<lparr>url = ''https://api.unisvg.com/x'', query = None,
        hdrs = [(''User-Agent'', ''icon-mcp/1.0''), (''Accept'', ''application/json'')]\<rparr>])"
proof (intro conjI)
  let ?e500 = "Inr \<lparr>status_code = 500, text_body = ''down'', json_body = Inr (PStr ''down'')\<rparr>"
  let ?bad = "Inr \<lparr>status_code = 200, text_body = ''<html>'', json_body = Inl JSONDecodeError\<rparr>"
  let ?seven = "\<lparr>status_code = 200, text_body = ''7'', json_body = Inr (PInt 7)\<rparr>"
  let ?svg = "\<lparr>status_code = 200, text_body = ''<svg/>'', json_body = Inl JSONDecodeError\<rparr>"
  let ?e404 = "Inr \<lparr>status_code = 404, text_body = ''404'', json_body = Inr (PInt 404)\<rparr>"
  let ?tmo = "Inl (TransportError ''timeout'')"
  note defs = three_hosts_def host_request_def host_fails_def build_headers_def
    ICONIFY_BASE_def ICONIFY_BACKUPS_def USER_AGENT_def
  have two: "(\<forall>j < 2. P j) \<longleftrightarrow> P 0 \<and> P (Suc 0)" for P :: "nat \<Rightarrow> bool"
    by (auto simp: less_Suc_eq numeral_2_eq_2)
  have one: "(\<forall>j < 1. P j) \<longleftrightarrow> P 0" for P :: "nat \<Rightarrow> bool"
    by auto
  show "request_iconify (three_hosts ?e500 ?bad (Inr ?seven)) ''/x'' None True None =
     (PInt 7,
      [\<lparr>url = ''https://api.iconify.design/x'', query = None,
        hdrs = [(''User-Agent'', ''icon-mcp/1.0''), (''Accept'', ''application/json'')]\<rparr>,
       \<lparr>url = ''https://api.simplesvg.com/x'', query = None,
        hdrs = [(''User-Agent'', ''icon-mcp/1.0''), (''Accept'', ''application/json'')]\<rparr>,
       \<lparr>url = ''https://api.unisvg.com/x'', query = None,
        hdrs = [(''User-Agent'', ''icon-mcp/1.0''), (''Accept'', ''application/json'')]\<rparr>])"
    using request_iconify_fallback
      [where k = 2 and client = "three_hosts ?e500 ?bad (Inr ?seven)" and path = "''/x''"
         and ps = None and ej = True and headers = None and v = "PInt 7" and resp = ?seven]
    by (simp add: defs two)
  show "request_iconify (three_hosts ?tmo (Inr ?svg) ?tmo) ''/x'' None False None =
     (PStr ''<svg/>'',
      [\<lparr>url = ''https://api.iconify.design/x'', query = None,
        hdrs = [(''User-Agent'', ''icon-mcp/1.0''), (''Accept'', ''image/svg+xml'')]\<rparr>,
       \<lparr>url = ''https://api.simplesvg.com/x'', query = None,
        hdrs = [(''User-Agent'', ''icon-mcp/1.0''), (''Accept'', ''image/svg+xml'')]\<rparr>])"
    using request_iconify_fallback
      [where k = 1 and client = "three_hosts ?tmo (Inr ?svg) ?tmo" and path = "''/x''"
         and ps = None and ej = False and headers = None and v = "PStr ''<svg/>''" and resp = ?svg]
    by (simp add: defs one)
  show "request_iconify (three_hosts ?e500 ?e404 ?tmo) ''/x'' None True None =
     (PNone,
      [\<lparr>url = ''https://api.iconify.design/x'', query = None,
        hdrs = [(''User-Agent'', ''icon-mcp/1.0''), (''Accept'', ''application/json'')]\<rparr>,
       \<lparr>url = ''https://api.simplesvg.com/x'', query = None,
        hdrs = [(''User-Agent'', ''icon-mcp/1.0''), (''Accept'', ''application/json'')]\<rparr>,
       \<lparr>url = ''https://api.unisvg.com/x'', query = None,
        hdrs = [(''User-Agent'', ''icon-mcp/1.0''), (''Accept'', ''application/json'')]\<rparr>])"
    using request_iconify_fallback
      [where client = "three_hosts ?e500 ?e404 ?tmo" and path = "''/x''"
         and ps = None and ej = True and headers = None]
    by (simp add: defs)
qed

section \<open>Validation failures\<close>

text \<open>
  Claim C6. For every malformed icon reference, get\_svg and get\_icon\_data return the
  message of the splitter's ValueError as their result, issue no GET whatever the hosts
  would answer, and raise nothing. The message is one of the splitter's two literals.
\<close>

theorem malformed_icon_message:
  "split_icon icon = Inl e \<Longrightarrow>
   \<exists>msg. e = ValueError msg \<and>
     (msg = ''Icon must be in 'prefix:name' format, e.g., 'mdi:home'' @ [CHR 0x27] \<or>
      msg = ''Invalid icon, expected 'prefix:name'' @ [CHR 0x27]) \<and>
     get_svg client icon color width height rotation flip box download = (Inr (PStr msg), []) \<and>
     get_icon_data client icon = (Inr (PStr msg), [])"
  by (auto simp: split_icon_def get_svg_def get_icon_data_def Let_def
           split: if_splits prod.splits)

theorem malformed_icon_message_witness:
  "get_svg (serve (PStr ''x'') ''<svg/>'') ''bad-icon-format'' None None None None None False False =
     (Inr (PStr (''Icon must be in 'prefix:name' format, e.g., 'mdi:home'' @ [CHR 0x27])), []) \<and>
   get_icon_data all_down ''mdi:'' =
     (Inr (PStr (''Invalid icon, expected 'prefix:name'' @ [CHR 0x27])), [])"
proof -
  have a: "split_icon ''bad-icon-format'' =
      Inl (ValueError (''Icon must be in 'prefix:name' format, e.g., 'mdi:home'' @ [CHR 0x27]))"
    by (simp add: split_icon_def)
  have b: "split_icon ''mdi:'' = Inl (ValueError (''Invalid icon, expected 'prefix:name'' @ [CHR 0x27]))"
    by (simp add: split_icon_def split_first_colon_def)
  show ?thesis
    using malformed_icon_message [OF a, of "serve (PStr ''x'') ''<svg/>''" None None None None None False False]
      malformed_icon_message [OF b, of all_down]
    by simp
qed

section \<open>The result of a search\<close>

lemma search_icons_fst:
  "fst (search_icons client q limit start prefix prefixes category style palette) =
     search_outcome (fst (request_iconify client ''/search''
        (Some (search_params q limit start prefix prefixes category style palette)) True None))"
  by (simp add: search_icons_def Let_def split: prod.splits)

text \<open>
  On a mapping, on a falsy value and on the absence after all hosts failed, the search
  gives what is specified: a mapping is returned unchanged if and only if it has an
  icons key, and everything else here gives the message.
\<close>

lemma search_icons_mapping:
  "fst (request_iconify client ''/search''
          (Some (search_params q limit start prefix prefixes category style palette)) True None) = d \<Longrightarrow>
   (d = PDict kvs \<longrightarrow>
      fst (search_icons client q limit start prefix prefixes category style palette) =
        (if ''icons'' \<in> fst ` set kvs then Inr (PDict kvs)
         else Inr (PStr ''Unable to fetch search results or no results found.''))) \<and>
   (\<not> truthy d \<longrightarrow>
      fst (search_icons client q limit start prefix prefixes category style palette) =
        Inr (PStr ''Unable to fetch search results or no results found.'')) \<and>
   (all_fail client ''/search''
      (Some (search_params q limit start prefix prefixes category style palette)) True None \<longrightarrow>
      fst (search_icons client q limit start prefix prefixes category style palette) =
        Inr (PStr ''Unable to fetch search results or no results found.''))"
proof (intro conjI impI)
  assume d: "fst (request_iconify client ''/search''
          (Some (search_params q limit start prefix prefixes category style palette)) True None) = d"
  {
    assume "d = PDict kvs"
    with d show "fst (search_icons client q limit start prefix prefixes category style palette) =
        (if ''icons'' \<in> fst ` set kvs then Inr (PDict kvs)
         else Inr (PStr ''Unable to fetch search results or no results found.''))"
      unfolding search_icons_fst by (cases kvs) (auto simp: search_outcome_def search_failure_def)
  next
    assume "\<not> truthy d"
    with d show "fst (search_icons client q limit start prefix prefixes category style palette) =
        Inr (PStr ''Unable to fetch search results or no results found.'')"
      unfolding search_icons_fst by (simp add: search_outcome_def search_failure_def)
  next
    assume "all_fail client ''/search''
      (Some (search_params q limit start prefix prefixes category style palette)) True None"
    from request_iconify_all_fail [OF this]
    show "fst (search_icons client q limit start prefix prefixes category style palette) =
        Inr (PStr ''Unable to fetch search results or no results found.'')"
      unfolding search_icons_fst by (simp add: search_outcome_def search_failure_def)
  }
qed


lemma search_icons_mapping_examples:
  "fst (search_icons (serve (PDict [(''icons'', PList [])]) []) ''home'' (Some 10) 0
          None None None None None) = Inr (PDict [(''icons'', PList [])]) \<and>
   fst (search_icons (serve (PDict [(''total'', PInt 0)]) []) ''home'' (Some 10) 0
          None None None None None) =
     Inr (PStr ''Unable to fetch search results or no results found.'') \<and>
   fst (search_icons (serve (PDict []) []) ''home'' (Some 10) 0 None None None None None) =
     Inr (PStr ''Unable to fetch search results or no results found.'') \<and>
   fst (search_icons all_down ''home'' (Some 10) 0 None None None None None) =
     Inr (PStr ''Unable to fetch search results or no results found.'')"
proof (intro conjI)
  let ?ps = "Some (search_params ''home'' (Some 10) 0 None None None None None)"
  have v: "fst (request_iconify (serve w []) ''/search'' ?ps True None) = w" for w
    using request_iconify_first_success [OF serve_first_success [of w "[]" _ _ True]]
    by simp
  show "fst (search_icons (serve (PDict [(''icons'', PList [])]) []) ''home'' (Some 10) 0
          None None None None None) = Inr (PDict [(''icons'', PList [])])"
    using search_icons_mapping [OF v, of "PDict [(''icons'', PList [])]" "[(''icons'', PList [])]"]
    by simp
  show "fst (search_icons (serve (PDict [(''total'', PInt 0)]) []) ''home'' (Some 10) 0
          None None None None None) =
     Inr (PStr ''Unable to fetch search results or no results found.'')"
    using search_icons_mapping [OF v, of "PDict [(''total'', PInt 0)]" "[(''total'', PInt 0)]"]
    by simp
  show "fst (search_icons (serve (PDict []) []) ''home'' (Some 10) 0 None None None None None) =
     Inr (PStr ''Unable to fetch search results or no results found.'')"
    using search_icons_mapping [OF v, of "PDict []"]
    by simp
  show "fst (search_icons all_down ''home'' (Some 10) 0 None None None None None) =
     Inr (PStr ''Unable to fetch search results or no results found.'')"
    using search_icons_mapping [OF refl, of all_down "''home''" "Some 10" 0 None None None None None]
      all_down_all_fail
    by simp
qed

section \<open>Query parameters of the search\<close>

lemma search_icons_snd:
  "snd (search_icons client q limit start prefix prefixes category style palette) =
     snd (request_iconify client ''/search''
        (Some (search_params q limit start prefix prefixes category style palette)) True None)"
  by (simp add: search_icons_def Let_def split: prod.splits)

lemma search_params_keys:
  "fst ` set (search_params q limit start prefix prefixes category style palette) \<subseteq>
     {''query'', ''limit'', ''start'', ''prefix'', ''prefixes'', ''category''}"
  by (auto simp: search_params_def Let_def AList.dom_update split: option.splits if_splits)

lemma search_params_query:
  "map_of (search_params q limit start prefix prefixes category style palette) ''query'' =
     Some (PStr (search_query_kw q style palette))"
  by (simp add: search_params_def Let_def AList.update_conv' split: option.splits)

text \<open>
  Claim C5. The search never sends style or palette as query parameters of their own.
  The query parameter is the stripped query text, followed by \<^verbatim>\<open> style=<value>\<close> when
  style is fill or stroke, followed by \<^verbatim>\<open> palette=true\<close> or \<^verbatim>\<open> palette=false\<close>
  when palette is given; every GET of the search carries these parameters.
\<close>

theorem search_keywords_in_query:
  "''style'' \<notin> fst ` set (search_params q limit start prefix prefixes category style palette) \<and>
   ''palette'' \<notin> fst ` set (search_params q limit start prefix prefixes category style palette) \<and>
   map_of (search_params q limit start prefix prefixes category style palette) ''query'' =
     Some (PStr (strip q @
       (if style = Some ''fill'' \<or> style = Some ''stroke'' then '' style='' @ the style else []) @
       (case palette of
          None \<Rightarrow> []
        | Some b \<Rightarrow> if b then '' palette=true'' else '' palette=false''))) \<and>
   snd (search_icons client q limit start prefix prefixes category style palette) \<noteq> [] \<and>
   (\<forall>r \<in> set (snd (search_icons client q limit start prefix prefixes category style palette)).
      query r = Some (search_params q limit start prefix prefixes category style palette)) \<and>
   search_query_kw ''home'' (Some ''stroke'') (Some False) = ''home style=stroke palette=false''"
proof (intro conjI)
  let ?ps = "search_params q limit start prefix prefixes category style palette"
  show "''style'' \<notin> fst ` set ?ps" "''palette'' \<notin> fst ` set ?ps"
    using search_params_keys [of q limit start prefix prefixes category style palette] by auto
  show "map_of ?ps ''query'' =
     Some (PStr (strip q @
       (if style = Some ''fill'' \<or> style = Some ''stroke'' then '' style='' @ the style else []) @
       (case palette of
          None \<Rightarrow> []
        | Some b \<Rightarrow> if b then '' palette=true'' else '' palette=false'')))"
    unfolding search_params_query
    by (auto simp: search_query_kw_def Let_def split: option.splits)
  show "snd (search_icons client q limit start prefix prefixes category style palette) \<noteq> []"
    unfolding search_icons_snd using request_iconify_issued by blast
  show "\<forall>r \<in> set (snd (search_icons client q limit start prefix prefixes category style palette)).
      query r = Some ?ps"
    unfolding search_icons_snd using request_iconify_issued by blast
  show "search_query_kw ''home'' (Some ''stroke'') (Some False) = ''home style=stroke palette=false''"
    by (simp add: search_query_kw_def strip_def is_space_def)
qed

theorem search_keywords_in_query_witness:
  "map_of (search_params '' home '' None 0 None None None (Some ''fill'') (Some True)) ''query'' =
     Some (PStr ''home style=fill palette=true'') \<and>
   query (hd (snd (search_icons all_down '' home '' None 0 None None None (Some ''fill'') (Some True)))) =
     Some [(''query'', PStr ''home style=fill palette=true''), (''limit'', PInt 64),
           (''start'', PInt 0)]"
proof -
  note t = search_keywords_in_query
    [of "'' home ''" None 0 None None None "Some ''fill''" "Some True" all_down]
  have s: "strip '' home '' = ''home''"
    by (simp add: strip_def is_space_def)
  have p: "search_params '' home '' None 0 None None None (Some ''fill'') (Some True) =
      [(''query'', PStr ''home style=fill palette=true''), (''limit'', PInt 64), (''start'', PInt 0)]"
    by (simp add: search_params_def search_query_kw_def s clamp_limit_def)
  from t have "hd (snd (search_icons all_down '' home '' None 0 None None None (Some ''fill'') (Some True)))
      \<in> set (snd (search_icons all_down '' home '' None 0 None None None (Some ''fill'') (Some True)))"
    by simp
  with t have "query (hd (snd (search_icons all_down '' home '' None 0 None None None (Some ''fill'') (Some True)))) =
     Some (search_params '' home '' None 0 None None None (Some ''fill'') (Some True))"
    by blast
  moreover from t have "map_of (search_params '' home '' None 0 None None None (Some ''fill'') (Some True)) ''query'' =
     Some (PStr ''home style=fill palette=true'')"
    by (simp add: s)
  ultimately show ?thesis by (simp add: p)
qed

section \<open>Query parameters of get\_svg\<close>

lemma get_svg_snd:
  "split_icon icon = Inr (p, n) \<Longrightarrow>
   snd (get_svg client icon color width height rotation flip box download) =
     snd (request_iconify client (''/'' @ p @ ''/'' @ n @ ''.svg'')
        (Some (svg_params color width height rotation flip box download)) False None)"
  by (simp add: get_svg_def Let_def split: prod.splits)

lemma get_svg_fst:
  "split_icon icon = Inr (p, n) \<Longrightarrow>
   fst (get_svg client icon color width height rotation flip box download) =
     Inr (py_or (fst (request_iconify client (''/'' @ p @ ''/'' @ n @ ''.svg'')
        (Some (svg_params color width height rotation flip box download)) False None))
        (PStr svg_failure))"
  by (simp add: get_svg_def Let_def split: prod.splits)

lemma replace_hash_no_hash: "CHR ''#'' \<notin> set (replace_hash s)"
  by (induction s) (auto simp: replace_hash_def)

lemma replace_hash_id: "CHR ''#'' \<notin> set s \<Longrightarrow> replace_hash s = s"
  by (induction s) (auto simp: replace_hash_def)

lemma map_of_opt_update:
  "map_of (case arg of None \<Rightarrow> ps
           | Some x \<Rightarrow> if x \<noteq> [] then AList.update key (PStr (f x)) ps else ps) k =
     (if k = key \<and> arg \<noteq> None \<and> arg \<noteq> Some [] then Some (PStr (f (the arg))) else map_of ps k)"
  by (cases arg) (simp_all add: AList.update_conv')

lemma map_of_str_update:
  "map_of (case arg of None \<Rightarrow> ps
           | Some x \<Rightarrow> if x \<noteq> [] then AList.update key (PStr x) ps else ps) k =
     (if k = key \<and> arg \<noteq> None \<and> arg \<noteq> Some [] then Some (PStr (the arg)) else map_of ps k)"
  by (cases arg) (simp_all add: AList.update_conv')

lemma map_of_flag_update:
  "map_of (if flag then AList.update key v ps else ps) k =
     (if k = key \<and> flag then Some v else map_of ps k)"
  by (simp add: AList.update_conv')

lemma svg_params_lookup:
  "map_of (svg_params color width height rotation flip box download) k =
     (if k = ''download'' \<and> download then Some (PInt 1)
      else if k = ''box'' \<and> box then Some (PInt 1)
      else if k = ''flip'' \<and> flip \<noteq> None \<and> flip \<noteq> Some [] then Some (PStr (the flip))
      else if k = ''rotate'' \<and> rotation \<noteq> None \<and> rotation \<noteq> Some [] then Some (PStr (the rotation))
      else if k = ''height'' \<and> height \<noteq> None \<and> height \<noteq> Some [] then Some (PStr (the height))
      else if k = ''width'' \<and> width \<noteq> None \<and> width \<noteq> Some [] then Some (PStr (the width))
      else if k = ''color'' \<and> color \<noteq> None \<and> color \<noteq> Some []
        then Some (PStr (replace_hash (the color)))
      else None)"
  unfolding svg_params_def Let_def
  apply (subst map_of_flag_update)
  apply (subst map_of_flag_update)
  apply (subst map_of_str_update)
  apply (subst map_of_str_update)
  apply (subst map_of_str_update)
  apply (subst map_of_str_update)
  apply (subst map_of_opt_update)
  apply simp
  done


text \<open>
  Claim C7. In the query parameters of get\_svg, each of color, width, height, rotate and
  flip appears only when its argument is given (and then only when it is not the empty
  string), box and download appear, with the value 1, exactly when their flag is true,
  and the color has every \<^verbatim>\<open>#\<close> replaced by \<^verbatim>\<open>%23\<close>. Every GET of get\_svg carries
  these parameters.
\<close>

theorem get_svg_query_parameters:
  "(k \<in> fst ` set (svg_params color width height rotation flip box download) \<longrightarrow>
      (k = ''color'' \<and> color \<noteq> None) \<or> (k = ''width'' \<and> width \<noteq> None) \<or>
      (k = ''height'' \<and> height \<noteq> None) \<or> (k = ''rotate'' \<and> rotation \<noteq> None) \<or>
      (k = ''flip'' \<and> flip \<noteq> None) \<or> (k = ''box'' \<and> box) \<or> (k = ''download'' \<and> download)) \<and>
   map_of (svg_params color width height rotation flip box download) ''color'' =
     (case color of None \<Rightarrow> None
      | Some x \<Rightarrow> if x = [] then None else Some (PStr (replace_hash x))) \<and>
   map_of (svg_params color width height rotation flip box download) ''width'' =
     (case width of None \<Rightarrow> None | Some x \<Rightarrow> if x = [] then None else Some (PStr x)) \<and>
   map_of (svg_params color width height rotation flip box download) ''height'' =
     (case height of None \<Rightarrow> None | Some x \<Rightarrow> if x = [] then None else Some (PStr x)) \<and>
   map_of (svg_params color width height rotation flip box download) ''rotate'' =
     (case rotation of None \<Rightarrow> None | Some x \<Rightarrow> if x = [] then None else Some (PStr x)) \<and>
   map_of (svg_params color width height rotation flip box download) ''flip'' =
     (case flip of None \<Rightarrow> None | Some x \<Rightarrow> if x = [] then None else Some (PStr x)) \<and>
   map_of (svg_params color width height rotation flip box download) ''box'' =
     (if box then Some (PInt 1) else None) \<and>
   map_of (svg_params color width height rotation flip box download) ''download'' =
     (if download then Some (PInt 1) else None) \<and>
   replace_hash (x # s) = (if x = CHR ''#'' then ''%23'' else [x]) @ replace_hash s \<and>
   replace_hash [] = [] \<and>
   CHR ''#'' \<notin> set (replace_hash s) \<and>
   (CHR ''#'' \<notin> set s \<longrightarrow> replace_hash s = s) \<and>
   replace_hash ''#ff0000'' = ''%23ff0000'' \<and>
   replace_hash ''red'' = ''red'' \<and>
   (split_icon icon = Inr (p, n) \<longrightarrow>
      snd (get_svg client icon color width height rotation flip box download) \<noteq> [] \<and>
      (\<forall>r \<in> set (snd (get_svg client icon color width height rotation flip box download)).
         query r = Some (svg_params color width height rotation flip box download)))"
proof (intro conjI impI)
  let ?ps = "svg_params color width height rotation flip box download"
  assume "k \<in> fst ` set ?ps"
  then have "map_of ?ps k \<noteq> None"
    by (simp add: map_of_eq_None_iff)
  then show "(k = ''color'' \<and> color \<noteq> None) \<or> (k = ''width'' \<and> width \<noteq> None) \<or>
      (k = ''height'' \<and> height \<noteq> None) \<or> (k = ''rotate'' \<and> rotation \<noteq> None) \<or>
      (k = ''flip'' \<and> flip \<noteq> None) \<or> (k = ''box'' \<and> box) \<or> (k = ''download'' \<and> download)"
    unfolding svg_params_lookup by (simp split: if_splits)
next
  show "map_of (svg_params color width height rotation flip box download) ''color'' =
     (case color of None \<Rightarrow> None
      | Some x \<Rightarrow> if x = [] then None else Some (PStr (replace_hash x)))"
    unfolding svg_params_lookup by (cases color) simp_all
  show "map_of (svg_params color width height rotation flip box download) ''width'' =
     (case width of None \<Rightarrow> None | Some x \<Rightarrow> if x = [] then None else Some (PStr x))"
    unfolding svg_params_lookup by (cases width) simp_all
  show "map_of (svg_params color width height rotation flip box download) ''height'' =
     (case height of None \<Rightarrow> None | Some x \<Rightarrow> if x = [] then None else Some (PStr x))"
    unfolding svg_params_lookup by (cases height) simp_all
  show "map_of (svg_params color width height rotation flip box download) ''rotate'' =
     (case rotation of None \<Rightarrow> None | Some x \<Rightarrow> if x = [] then None else Some (PStr x))"
    unfolding svg_params_lookup by (cases rotation) simp_all
  show "map_of (svg_params color width height rotation flip box download) ''flip'' =
     (case flip of None \<Rightarrow> None | Some x \<Rightarrow> if x = [] then None else Some (PStr x))"
    unfolding svg_params_lookup by (cases flip) simp_all
  show "map_of (svg_params color width height rotation flip box download) ''box'' =
     (if box then Some (PInt 1) else None)"
    unfolding svg_params_lookup by simp
  show "map_of (svg_params color width height rotation flip box download) ''download'' =
     (if download then Some (PInt 1) else None)"
    unfolding svg_params_lookup by simp
  show "replace_hash (x # s) = (if x = CHR ''#'' then ''%23'' else [x]) @ replace_hash s"
    by (simp add: replace_hash_def)
  show "replace_hash [] = []"
    by (simp add: replace_hash_def)
  show "CHR ''#'' \<notin> set (replace_hash s)"
    by (rule replace_hash_no_hash)
  show "replace_hash ''#ff0000'' = ''%23ff0000''"
    by (simp add: replace_hash_def)
  show "replace_hash ''red'' = ''red''"
    by (simp add: replace_hash_def)
next
  assume "CHR ''#'' \<notin> set s"
  then show "replace_hash s = s" by (rule replace_hash_id)
next
  assume ok: "split_icon icon = Inr (p, n)"
  show "snd (get_svg client icon color width height rotation flip box download) \<noteq> []"
    unfolding get_svg_snd [OF ok] using request_iconify_issued by blast
next
  assume ok: "split_icon icon = Inr (p, n)"
  show "\<forall>r \<in> set (snd (get_svg client icon color width height rotation flip box download)).
         query r = Some (svg_params color width height rotation flip box download)"
    unfolding get_svg_snd [OF ok] using request_iconify_issued by blast
qed


theorem get_svg_query_parameters_witness:
  "map_of (svg_params (Some ''#ff0000'') None (Some []) None None True False) ''color'' =
     Some (PStr ''%23ff0000'') \<and>
   map_of (svg_params (Some ''#ff0000'') None (Some []) None None True False) ''box'' =
     Some (PInt 1) \<and>
   map_of (svg_params (Some ''#ff0000'') None (Some []) None None True False) ''download'' = None \<and>
   ''width'' \<notin> fst ` set (svg_params (Some ''#ff0000'') None (Some []) None None True False) \<and>
   replace_hash ''red'' = ''red'' \<and>
   query (hd (snd (get_svg all_down ''mdi:home'' (Some ''#ff0000'') None (Some []) None None True False))) =
     Some [(''color'', PStr ''%23ff0000''), (''box'', PInt 1)]"
proof -
  note t = get_svg_query_parameters
    [of "''width''" "Some ''#ff0000''" None "Some []" None None True False _ "''red''"
        "''mdi:home''" "''mdi''" "''home''" all_down]
  have ok: "split_icon ''mdi:home'' = Inr (''mdi'', ''home'')"
    by (simp add: split_icon_def split_first_colon_def)
  have ps: "svg_params (Some ''#ff0000'') None (Some []) None None True False =
      [(''color'', PStr ''%23ff0000''), (''box'', PInt 1)]"
    by (simp add: svg_params_def replace_hash_def)
  from t ok have "hd (snd (get_svg all_down ''mdi:home'' (Some ''#ff0000'') None (Some []) None None True False))
      \<in> set (snd (get_svg all_down ''mdi:home'' (Some ''#ff0000'') None (Some []) None None True False))"
    by simp
  with t ok have q:
    "query (hd (snd (get_svg all_down ''mdi:home'' (Some ''#ff0000'') None (Some []) None None True False))) =
     Some (svg_params (Some ''#ff0000'') None (Some []) None None True False)"
    by blast
  from t have w: "''width'' \<notin> fst ` set (svg_params (Some ''#ff0000'') None (Some []) None None True False)"
    by auto
  from t have r: "replace_hash ''red'' = ''red''" by simp
  from t have c: "map_of (svg_params (Some ''#ff0000'') None (Some []) None None True False) ''color'' =
     Some (PStr ''%23ff0000'')"
    by (simp add: replace_hash_def)
  from t have b: "map_of (svg_params (Some ''#ff0000'') None (Some []) None None True False) ''box'' =
     Some (PInt 1)" by simp
  from t have d: "map_of (svg_params (Some ''#ff0000'') None (Some []) None None True False) ''download'' = None"
    by simp
  show ?thesis
    using c b d w r q unfolding ps by simp
qed

section \<open>Listing a collection\<close>

lemma list_icons_in_collection_fst:
  "fst (list_icons_in_collection client prefix include_info include_chars) =
     Inr (py_or (fst (request_iconify client ''/collection''
        (Some (collection_params prefix include_info include_chars)) True None))
        (PStr (collection_failure prefix)))"
  by (simp add: list_icons_in_collection_def Let_def split: prod.splits)

lemma list_icons_in_collection_snd:
  "snd (list_icons_in_collection client prefix include_info include_chars) =
     snd (request_iconify client ''/collection''
        (Some (collection_params prefix include_info include_chars)) True None)"
  by (simp add: list_icons_in_collection_def Let_def split: prod.splits)

text \<open>
  Claim C8. list\_icons\_in\_collection always sends the prefix, sends info as the string
  \<^verbatim>\<open>"1"\<close> exactly when include\_info is true and chars as \<^verbatim>\<open>"1"\<close> exactly when
  include\_chars is true, in every GET it issues; when the requester hands back nothing
  or a falsy value, the result is the failure message, which names the prefix between
  quotes.
\<close>

theorem list_icons_in_collection_parameters:
  "map_of (collection_params prefix include_info include_chars) ''prefix'' = Some (PStr prefix) \<and>
   map_of (collection_params prefix include_info include_chars) ''info'' =
     (if include_info then Some (PStr ''1'') else None) \<and>
   map_of (collection_params prefix include_info include_chars) ''chars'' =
     (if include_chars then Some (PStr ''1'') else None) \<and>
   snd (list_icons_in_collection client prefix include_info include_chars) \<noteq> [] \<and>
   (\<forall>r \<in> set (snd (list_icons_in_collection client prefix include_info include_chars)).
      query r = Some (collection_params prefix include_info include_chars)) \<and>
   (\<not> truthy (fst (request_iconify client ''/collection''
        (Some (collection_params prefix include_info include_chars)) True None)) \<longrightarrow>
      fst (list_icons_in_collection client prefix include_info include_chars) =
        Inr (PStr (''Unable to fetch icons for collection '' @ [CHR 0x27] @ prefix @ [CHR 0x27] @ ''.'')))"
proof (intro conjI impI)
  show "map_of (collection_params prefix include_info include_chars) ''prefix'' = Some (PStr prefix)"
    by (simp add: collection_params_def Let_def AList.update_conv')
  show "map_of (collection_params prefix include_info include_chars) ''info'' =
     (if include_info then Some (PStr ''1'') else None)"
    by (simp add: collection_params_def Let_def AList.update_conv')
  show "map_of (collection_params prefix include_info include_chars) ''chars'' =
     (if include_chars then Some (PStr ''1'') else None)"
    by (simp add: collection_params_def Let_def AList.update_conv')
  show "snd (list_icons_in_collection client prefix include_info include_chars) \<noteq> []"
    unfolding list_icons_in_collection_snd using request_iconify_issued by blast
  show "\<forall>r \<in> set (snd (list_icons_in_collection client prefix include_info include_chars)).
      query r = Some (collection_params prefix include_info include_chars)"
    unfolding list_icons_in_collection_snd using request_iconify_issued by blast
next
  assume "\<not> truthy (fst (request_iconify client ''/collection''
        (Some (collection_params prefix include_info include_chars)) True None))"
  then show "fst (list_icons_in_collection client prefix include_info include_chars) =
        Inr (PStr (''Unable to fetch icons for collection '' @ [CHR 0x27] @ prefix @ [CHR 0x27] @ ''.''))"
    unfolding list_icons_in_collection_fst by (simp add: py_or_def collection_failure_def)
qed

theorem list_icons_in_collection_parameters_witness:
  "query (hd (snd (list_icons_in_collection all_down ''mdi'' True False))) =
     Some [(''prefix'', PStr ''mdi''), (''info'', PStr ''1'')] \<and>
   fst (list_icons_in_collection all_down ''mdi'' True False) =
     Inr (PStr (''Unable to fetch icons for collection 'mdi'' @ [CHR 0x27] @ ''.'')) \<and>
   fst (list_icons_in_collection (serve (PDict []) []) ''mdi'' True False) =
     Inr (PStr (''Unable to fetch icons for collection 'mdi'' @ [CHR 0x27] @ ''.''))"
proof -
  note t = list_icons_in_collection_parameters [of "''mdi''" True False all_down]
  note u = list_icons_in_collection_parameters [of "''mdi''" True False "serve (PDict []) []"]
  have ps: "collection_params ''mdi'' True False = [(''prefix'', PStr ''mdi''), (''info'', PStr ''1'')]"
    by (simp add: collection_params_def Let_def AList.update_conv')
  have down: "fst (request_iconify all_down ''/collection'' (Some (collection_params ''mdi'' True False)) True None) = PNone"
    using request_iconify_all_fail [OF all_down_all_fail] by simp
  have empty: "fst (request_iconify (serve (PDict []) []) ''/collection''
      (Some (collection_params ''mdi'' True False)) True None) = PDict []"
    using request_iconify_first_success [OF serve_first_success [of "PDict []" "[]" _ _ True]] by simp
  from t have "hd (snd (list_icons_in_collection all_down ''mdi'' True False))
      \<in> set (snd (list_icons_in_collection all_down ''mdi'' True False))"
    by simp
  with t have q: "query (hd (snd (list_icons_in_collection all_down ''mdi'' True False))) =
     Some (collection_params ''mdi'' True False)"
    by blast
  from t down have a: "fst (list_icons_in_collection all_down ''mdi'' True False) =
     Inr (PStr (''Unable to fetch icons for collection 'mdi'' @ [CHR 0x27] @ ''.''))"
    by simp
  from u empty have b: "fst (list_icons_in_collection (serve (PDict []) []) ''mdi'' True False) =
     Inr (PStr (''Unable to fetch icons for collection 'mdi'' @ [CHR 0x27] @ ''.''))"
    by simp
  show ?thesis using q a b unfolding ps by simp
qed

section \<open>Empty payloads\<close>

lemma get_icon_data_fst:
  "split_icon icon = Inr (p, n) \<Longrightarrow>
   fst (get_icon_data client icon) =
     Inr (py_or (fst (request_iconify client (''/'' @ p @ ''.json'')
        (Some [(''icons'', PStr n)]) True None)) (PStr icon_data_failure))"
  by (simp add: get_icon_data_def Let_def split: prod.splits)

lemma list_collections_fst:
  "fst (list_collections client prefix prefixes) =
     Inr (py_or (fst (request_iconify client ''/collections''
        (Some (collections_params prefix prefixes)) True None)) (PStr collections_failure))"
  by (simp add: list_collections_def Let_def split: prod.splits)

lemma first_success_value:
  "first_success client path ps ej headers k v \<Longrightarrow>
   fst (request_iconify client path ps ej headers) = v"
  by (simp add: request_iconify_first_success)

lemma all_down_value: "fst (request_iconify all_down path ps ej headers) = PNone"
  using request_iconify_all_fail [OF all_down_all_fail] by simp

text \<open>
  Claim C9. When the first host that answers gives a falsy payload (an empty SVG text
  for get\_svg; an empty or otherwise falsy JSON value for get\_icon\_data,
  list\_collections and list\_icons\_in\_collection), the operation returns its failure
  message, which is also what it returns when every host is down.
\<close>

theorem falsy_payload_is_failure:
  "\<not> truthy v \<Longrightarrow>
   (split_icon icon = Inr (p, n) \<and>
    first_success client (''/'' @ p @ ''/'' @ n @ ''.svg'')
      (Some (svg_params color width height rotation flip box download)) False None k v \<longrightarrow>
      fst (get_svg client icon color width height rotation flip box download) =
        Inr (PStr ''Unable to fetch SVG.'') \<and>
      fst (get_svg all_down icon color width height rotation flip box download) =
        Inr (PStr ''Unable to fetch SVG.'')) \<and>
   (split_icon icon = Inr (p, n) \<and>
    first_success client (''/'' @ p @ ''.json'') (Some [(''icons'', PStr n)]) True None k v \<longrightarrow>
      fst (get_icon_data client icon) = Inr (PStr ''Unable to fetch icon data.'') \<and>
      fst (get_icon_data all_down icon) = Inr (PStr ''Unable to fetch icon data.'')) \<and>
   (first_success client ''/collections'' (Some (collections_params prefix_opt prefixes)) True None k v \<longrightarrow>
      fst (list_collections client prefix_opt prefixes) = Inr (PStr ''Unable to fetch collections.'') \<and>
      fst (list_collections all_down prefix_opt prefixes) = Inr (PStr ''Unable to fetch collections.'')) \<and>
   (first_success client ''/collection''
      (Some (collection_params prefix include_info include_chars)) True None k v \<longrightarrow>
      fst (list_icons_in_collection client prefix include_info include_chars) =
        Inr (PStr (collection_failure prefix)) \<and>
      fst (list_icons_in_collection all_down prefix include_info include_chars) =
        Inr (PStr (collection_failure prefix)))"
proof (intro conjI impI)
  assume f: "\<not> truthy v"
  {
    assume a: "split_icon icon = Inr (p, n) \<and>
      first_success client (''/'' @ p @ ''/'' @ n @ ''.svg'')
        (Some (svg_params color width height rotation flip box download)) False None k v"
    then have ok: "split_icon icon = Inr (p, n)" by simp
    from a have "fst (request_iconify client (''/'' @ p @ ''/'' @ n @ ''.svg'')
        (Some (svg_params color width height rotation flip box download)) False None) = v"
      by (blast intro: first_success_value)
    with f show "fst (get_svg client icon color width height rotation flip box download) =
        Inr (PStr ''Unable to fetch SVG.'')"
      unfolding get_svg_fst [OF ok] by (simp add: py_or_def svg_failure_def)
    show "fst (get_svg all_down icon color width height rotation flip box download) =
        Inr (PStr ''Unable to fetch SVG.'')"
      unfolding get_svg_fst [OF ok] by (simp add: all_down_value py_or_def svg_failure_def)
  next
    assume a: "split_icon icon = Inr (p, n) \<and>
      first_success client (''/'' @ p @ ''.json'') (Some [(''icons'', PStr n)]) True None k v"
    then have ok: "split_icon icon = Inr (p, n)" by simp
    from a have "fst (request_iconify client (''/'' @ p @ ''.json'')
        (Some [(''icons'', PStr n)]) True None) = v"
      by (blast intro: first_success_value)
    with f show "fst (get_icon_data client icon) = Inr (PStr ''Unable to fetch icon data.'')"
      unfolding get_icon_data_fst [OF ok]
      by (simp add: py_or_def icon_data_failure_def)
    show "fst (get_icon_data all_down icon) = Inr (PStr ''Unable to fetch icon data.'')"
      unfolding get_icon_data_fst [OF ok]
      by (simp add: all_down_value py_or_def icon_data_failure_def)
  next
    assume a: "first_success client ''/collections''
      (Some (collections_params prefix_opt prefixes)) True None k v"
    then have "fst (request_iconify client ''/collections''
        (Some (collections_params prefix_opt prefixes)) True None) = v"
      by (rule first_success_value)
    with f show "fst (list_collections client prefix_opt prefixes) =
        Inr (PStr ''Unable to fetch collections.'')"
      unfolding list_collections_fst
      by (simp add: py_or_def collections_failure_def)
    show "fst (list_collections all_down prefix_opt prefixes) =
        Inr (PStr ''Unable to fetch collections.'')"
      unfolding list_collections_fst
      by (simp add: all_down_value py_or_def collections_failure_def)
  next
    assume a: "first_success client ''/collection''
      (Some (collection_params prefix include_info include_chars)) True None k v"
    then have "fst (request_iconify client ''/collection''
        (Some (collection_params prefix include_info include_chars)) True None) = v"
      by (rule first_success_value)
    with f show "fst (list_icons_in_collection client prefix include_info include_chars) =
        Inr (PStr (collection_failure prefix))"
      unfolding list_icons_in_collection_fst
      by (simp add: py_or_def)
    show "fst (list_icons_in_collection all_down prefix include_info include_chars) =
        Inr (PStr (collection_failure prefix))"
      unfolding list_icons_in_collection_fst
      by (simp add: all_down_value py_or_def)
  }
qed

theorem falsy_payload_is_failure_witness:
  "fst (get_svg (serve PNone []) ''mdi:home'' None None None None None False False) =
     Inr (PStr ''Unable to fetch SVG.'') \<and>
   fst (get_svg all_down ''mdi:home'' None None None None None False False) =
     Inr (PStr ''Unable to fetch SVG.'') \<and>
   fst (get_icon_data (serve (PDict []) ''{}'') ''mdi:home'') =
     Inr (PStr ''Unable to fetch icon data.'') \<and>
   fst (list_collections (serve (PDict []) ''{}'') None None) =
     Inr (PStr ''Unable to fetch collections.'') \<and>
   fst (list_icons_in_collection (serve (PDict []) ''{}'') ''mdi'' False False) =
     fst (list_icons_in_collection all_down ''mdi'' False False)"
proof -
  have ok: "split_icon ''mdi:home'' = Inr (''mdi'', ''home'')"
    by (simp add: split_icon_def split_first_colon_def)
  have svg: "first_success (serve PNone []) path ps False None 0 (PStr [])" for path ps
    using serve_first_success [of PNone "[]" path ps False None] by simp
  have js: "first_success (serve (PDict []) ''{}'') path ps True None 0 (PDict [])" for path ps
    using serve_first_success [of "PDict []" "''{}''" path ps True None] by simp
  note a = falsy_payload_is_failure
    [of "PStr []" "''mdi:home''" "''mdi''" "''home''" "serve PNone []"
        None None None None None False False 0]
  note b = falsy_payload_is_failure
    [of "PDict []" "''mdi:home''" "''mdi''" "''home''" "serve (PDict []) ''{}''"
        None None None None None False False 0 None None "''mdi''" False False]
  from a ok svg have 1:
    "fst (get_svg (serve PNone []) ''mdi:home'' None None None None None False False) =
       Inr (PStr ''Unable to fetch SVG.'')"
    "fst (get_svg all_down ''mdi:home'' None None None None None False False) =
       Inr (PStr ''Unable to fetch SVG.'')"
    by simp_all
  from b ok js have 2:
    "fst (get_icon_data (serve (PDict []) ''{}'') ''mdi:home'') = Inr (PStr ''Unable to fetch icon data.'')"
    "fst (list_collections (serve (PDict []) ''{}'') None None) = Inr (PStr ''Unable to fetch collections.'')"
    "fst (list_icons_in_collection (serve (PDict []) ''{}'') ''mdi'' False False) =
       fst (list_icons_in_collection all_down ''mdi'' False False)"
    by simp_all
  from 1 2 show ?thesis by simp
qed

section \<open>A payload that is not a container\<close>

lemma search_outcome_raises_iff:
  "(\<exists>e. search_outcome d = Inl e) \<longleftrightarrow> d = PBool True \<or> (\<exists>n. d = PInt n \<and> n \<noteq> 0)"
  by (cases d) (auto simp: search_outcome_def)

lemma serve_json_value:
  "fst (request_iconify (serve v body) path ps True headers) = v"
  using request_iconify_first_success [OF serve_first_success [of v body path ps True headers]]
  by simp

text \<open>
  Claim C2. Every response without an icons key should give the message
  \<^verbatim>\<open>Unable to fetch search results or no results found.\<close> The code does not do so
  when a host answers 200 with the JSON number 5: the requester hands back 5, which has
  no icons key, and the test \<^verbatim>\<open>"icons" not in data\<close> of line 113 raises a TypeError,
  so search\_icons returns neither the message nor the value. At the same payload
  get\_icon\_data and list\_collections return a value.
\<close>

theorem search_icons_raises_on_number:
  "fst (request_iconify (serve (PInt 5) ''5'') ''/search''
          (Some (search_params ''home'' (Some 64) 0 None None None None None)) True None) = PInt 5 \<and>
   fst (search_icons (serve (PInt 5) ''5'') ''home'' (Some 64) 0 None None None None None) =
     Inl (TypeError ''int'') \<and>
   fst (search_icons (serve (PInt 5) ''5'') ''home'' (Some 64) 0 None None None None None) \<noteq>
     Inr (PStr ''Unable to fetch search results or no results found.'') \<and>
   fst (get_icon_data (serve (PInt 5) ''5'') ''mdi:home'') = Inr (PInt 5) \<and>
   fst (list_collections (serve (PInt 5) ''5'') None None) = Inr (PInt 5)"
proof -
  have ok: "split_icon ''mdi:home'' = Inr (''mdi'', ''home'')"
    by (simp add: split_icon_def split_first_colon_def)
  show ?thesis
    unfolding search_icons_fst get_icon_data_fst [OF ok] list_collections_fst serve_json_value
    by (simp add: search_outcome_def py_or_def)
qed

end
